theory Spec2Isabelle
  imports Complex_Main
begin

section \<open>JavaScript numbers\<close>

text \<open>
  The component computes with JavaScript numbers. They are modelled as exact reals extended
  with the special values of the language's numeric model: negative zero, the two infinities
  and NaN. \<open>Num 0\<close> is positive zero. Rounding, overflow and underflow of the binary
  representation are not modelled: a finite result is the exact real result.
\<close>

datatype jsnum = Num real | NegZero | PosInf | NegInf | NaN

fun negative :: "jsnum \<Rightarrow> bool" where
  "negative (Num x) = (x < 0)"
| "negative NegZero = True"
| "negative PosInf = False"
| "negative NegInf = True"
| "negative NaN = False"

fun is_zero :: "jsnum \<Rightarrow> bool" where
  "is_zero (Num x) = (x = 0)"
| "is_zero NegZero = True"
| "is_zero PosInf = False"
| "is_zero NegInf = False"
| "is_zero NaN = False"

fun is_inf :: "jsnum \<Rightarrow> bool" where
  "is_inf (Num x) = False"
| "is_inf NegZero = False"
| "is_inf PosInf = True"
| "is_inf NegInf = True"
| "is_inf NaN = False"

fun is_nan :: "jsnum \<Rightarrow> bool" where
  "is_nan (Num x) = False"
| "is_nan NegZero = False"
| "is_nan PosInf = False"
| "is_nan NegInf = False"
| "is_nan NaN = True"

text \<open>The value of a finite number (0 for the others, where it is never read).\<close>

fun mag :: "jsnum \<Rightarrow> real" where
  "mag (Num x) = x"
| "mag NegZero = 0"
| "mag PosInf = 0"
| "mag NegInf = 0"
| "mag NaN = 0"

definition zero_signed :: "bool \<Rightarrow> jsnum" where
  "zero_signed neg = (if neg then NegZero else Num 0)"

definition inf_signed :: "bool \<Rightarrow> jsnum" where
  "inf_signed neg = (if neg then NegInf else PosInf)"

text \<open>Unary minus.\<close>

fun js_neg :: "jsnum \<Rightarrow> jsnum" where
  "js_neg (Num x) = (if x = 0 then NegZero else Num (- x))"
| "js_neg NegZero = Num 0"
| "js_neg PosInf = NegInf"
| "js_neg NegInf = PosInf"
| "js_neg NaN = NaN"

text \<open>
  \<open>a + b\<close>: NaN is absorbing, opposite infinities give NaN, an infinity absorbs a finite
  number, and a zero sum is positive zero unless both operands are negative zero.
\<close>

fun js_add :: "jsnum \<Rightarrow> jsnum \<Rightarrow> jsnum" where
  "js_add NaN y = NaN"
| "js_add x NaN = NaN"
| "js_add PosInf NegInf = NaN"
| "js_add NegInf PosInf = NaN"
| "js_add PosInf y = PosInf"
| "js_add x PosInf = PosInf"
| "js_add NegInf y = NegInf"
| "js_add x NegInf = NegInf"
| "js_add NegZero NegZero = NegZero"
| "js_add NegZero (Num b) = Num b"
| "js_add (Num a) NegZero = Num a"
| "js_add (Num a) (Num b) = Num (a + b)"

text \<open>\<open>a - b\<close> is \<open>a + (-b)\<close>.\<close>

definition js_sub :: "jsnum \<Rightarrow> jsnum \<Rightarrow> jsnum" where
  "js_sub x y = js_add x (js_neg y)"

text \<open>
  \<open>a * b\<close>: the sign of the result is the exclusive or of the operands' signs;
  zero times infinity is NaN.
\<close>

definition js_mul :: "jsnum \<Rightarrow> jsnum \<Rightarrow> jsnum" where
  "js_mul x y =
     (if is_nan x \<or> is_nan y then NaN
      else if (is_inf x \<and> is_zero y) \<or> (is_zero x \<and> is_inf y) then NaN
      else if is_inf x \<or> is_inf y then inf_signed (negative x \<noteq> negative y)
      else if is_zero x \<or> is_zero y then zero_signed (negative x \<noteq> negative y)
      else Num (mag x * mag y))"

text \<open>
  \<open>a / b\<close> never throws: zero by zero and infinity by infinity are NaN, any other division
  by a zero is an infinity, a finite number by an infinity is a zero; signs as for \<open>*\<close>.
\<close>

definition js_div :: "jsnum \<Rightarrow> jsnum \<Rightarrow> jsnum" where
  "js_div x y =
     (if is_nan x \<or> is_nan y then NaN
      else if (is_inf x \<and> is_inf y) \<or> (is_zero x \<and> is_zero y) then NaN
      else if is_inf x \<or> is_zero y then inf_signed (negative x \<noteq> negative y)
      else if is_zero x \<or> is_inf y then zero_signed (negative x \<noteq> negative y)
      else Num (mag x / mag y))"

text \<open>\<open>Math.abs\<close>.\<close>

fun js_abs :: "jsnum \<Rightarrow> jsnum" where
  "js_abs (Num x) = Num \<bar>x\<bar>"
| "js_abs NegZero = Num 0"
| "js_abs PosInf = PosInf"
| "js_abs NegInf = PosInf"
| "js_abs NaN = NaN"

text \<open>
  \<open>a < b\<close>: false as soon as an operand is NaN; the two zeros compare equal.
\<close>

fun js_lt :: "jsnum \<Rightarrow> jsnum \<Rightarrow> bool" where
  "js_lt NaN y = False"
| "js_lt x NaN = False"
| "js_lt PosInf y = False"
| "js_lt x PosInf = True"
| "js_lt x NegInf = False"
| "js_lt NegInf y = True"
| "js_lt x y = (mag x < mag y)"

definition js_gt :: "jsnum \<Rightarrow> jsnum \<Rightarrow> bool" where
  "js_gt x y = js_lt y x"

definition js_le :: "jsnum \<Rightarrow> jsnum \<Rightarrow> bool" where
  "js_le x y = (\<not> is_nan x \<and> \<not> is_nan y \<and> \<not> js_lt y x)"

definition js_ge :: "jsnum \<Rightarrow> jsnum \<Rightarrow> bool" where
  "js_ge x y = js_le y x"

text \<open>\<open>a === b\<close> on numbers: NaN equals nothing, the two zeros are equal.\<close>

definition js_eq :: "jsnum \<Rightarrow> jsnum \<Rightarrow> bool" where
  "js_eq x y = (\<not> is_nan x \<and> \<not> is_nan y \<and> \<not> js_lt x y \<and> \<not> js_lt y x)"

section \<open>Preset ranges\<close>

text \<open>
  Modelled from the spec: the enum \<open>Presets\<close> of \<open>state/mint/v3/reducer\<close>, whose
  declaration is not among the sources. The data model names its members Full, Safe,
  Normal, Risk and Stable, and the component uses exactly these five.
\<close>

datatype Presets = FULL | SAFE | NORMAL | RISK | STABLE

datatype PresetProfits = VERY_LOW | LOW | MEDIUM | HIGH

text \<open>
  An element of \<open>ranges\<close>. The title is what the translation function \<open>t\<close> returns for
  the preset's key.
\<close>

record 'title preset_range =
  ptype :: Presets
  title :: 'title
  pmin :: jsnum
  pmax :: jsnum
  prisk :: PresetProfits
  profit :: PresetProfits

definition ranges :: "(string \<Rightarrow> 'title) \<Rightarrow> bool \<Rightarrow> 'title preset_range list" where
  "ranges t isStablecoinPair =
     (if isStablecoinPair then
        [\<lparr>ptype = STABLE, title = t ''stablecoins'', pmin = Num 0.984, pmax = Num 1.016,
          prisk = VERY_LOW, profit = HIGH\<rparr>]
      else
        [\<lparr>ptype = FULL, title = t ''fullRange'', pmin = Num 0, pmax = PosInf,
          prisk = VERY_LOW, profit = VERY_LOW\<rparr>,
         \<lparr>ptype = SAFE, title = t ''safe'', pmin = Num 0.8, pmax = Num 1.4,
          prisk = LOW, profit = LOW\<rparr>,
         \<lparr>ptype = NORMAL, title = t ''common'', pmin = Num 0.9, pmax = Num 1.2,
          prisk = MEDIUM, profit = MEDIUM\<rparr>,
         \<lparr>ptype = RISK, title = t ''expert'', pmin = Num 0.95, pmax = Num 1.1,
          prisk = HIGH, profit = HIGH\<rparr>])"

section \<open>Risk score\<close>

text \<open>
  The props \<open>priceLower\<close>, \<open>priceUpper\<close> and \<open>price\<close> have type
  \<open>string | undefined\<close>. The memo tests them for truthiness and then reads them only
  through unary plus. An argument is therefore \<open>None\<close> for a falsy prop (\<open>undefined\<close> or
  the empty string) and \<open>Some x\<close> for a non-empty string, \<open>x\<close> being the number \<open>+s\<close>
  (NaN for a string that is no numeric literal).
\<close>

definition upperPercent :: "jsnum \<Rightarrow> jsnum \<Rightarrow> jsnum" where
  "upperPercent price priceUpper =
     js_sub (Num 100) (js_mul (js_div price priceUpper) (Num 100))"

definition lowerPercent :: "jsnum \<Rightarrow> jsnum \<Rightarrow> jsnum" where
  "lowerPercent price priceLower =
     js_abs (js_sub (Num 100) (js_mul (js_div price priceLower) (Num 100)))"

definition rangePercent :: "jsnum \<Rightarrow> jsnum \<Rightarrow> jsnum \<Rightarrow> jsnum" where
  "rangePercent priceLower priceUpper price =
     (if js_gt priceLower price \<and> js_gt priceUpper (Num 0)
      then js_sub (upperPercent price priceUpper) (lowerPercent price priceLower)
      else js_add (upperPercent price priceUpper) (lowerPercent price priceLower))"

text \<open>The chain of comparisons that ends the memo, \<open>r\<close> being \<open>rangePercent\<close>.\<close>

definition riskBands :: "jsnum \<Rightarrow> jsnum" where
  "riskBands r =
     (if js_lt r (Num 7.5) then Num 5
      else if js_lt r (Num 15) then js_add (js_div (js_sub (Num 15) r) (Num 7.5)) (Num 4)
      else if js_lt r (Num 30) then js_add (js_div (js_sub (Num 30) r) (Num 15)) (Num 3)
      else if js_lt r (Num 60) then js_add (js_div (js_sub (Num 60) r) (Num 30)) (Num 2)
      else if js_lt r (Num 120) then js_add (js_div (js_sub (Num 120) r) (Num 60)) (Num 1)
      else Num 1)"

text \<open>
  The band table as the specification words it, over the reals; \<open>riskBands\<close> above is
  the code, and is compared with it below.
\<close>

definition spec_bands :: "real \<Rightarrow> real" where
  "spec_bands r =
     (if r < 7.5 then 5
      else if r < 15 then (15 - r) / 7.5 + 4
      else if r < 30 then (30 - r) / 15 + 3
      else if r < 60 then (60 - r) / 30 + 2
      else if r < 120 then (120 - r) / 60 + 1
      else 1)"

text \<open>The memo \<open>risk\<close> (\<open>computeRiskScore\<close> in the specification).\<close>

definition risk :: "jsnum option \<Rightarrow> jsnum option \<Rightarrow> jsnum option \<Rightarrow> jsnum option" where
  "risk priceLower priceUpper price =
     (case priceUpper of None \<Rightarrow> None
      | Some pu \<Rightarrow>
        (case priceLower of None \<Rightarrow> None
         | Some pl \<Rightarrow>
           (case price of None \<Rightarrow> None
            | Some p \<Rightarrow> Some (riskBands (rangePercent pl pu p)))))"

section \<open>The five-segment indicator\<close>

text \<open>
  The memo \<open>_risk\<close> reads the score through its decimal text:
  \<open>risk.toString().split('.')\<close>, then \<open>+split[0]\<close> and
  \<open>parseFloat('0.' + split[1])\<close>. \<open>split_number x\<close> is that pair of numbers.

  \<^item> \<open>NaN\<close>, \<open>Infinity\<close> and \<open>-Infinity\<close> print as one word, which unary plus reads
    back; \<open>split[1]\<close> is then \<open>undefined\<close> and \<open>parseFloat('0.undefined')\<close> is 0.
  \<^item> Both zeros print as \<open>0\<close>.
  \<^item> A finite \<open>x\<close> with \<open>1e-6 \<le> |x| < 1e21\<close> prints in plain decimal notation:
    the first part is the integer part with the sign (\<open>-0\<close> when \<open>-1 < x < 0\<close>), the
    second part holds the fraction digits of \<open>|x|\<close> and is missing for an integer.
  \<^item> Any other finite \<open>x\<close> prints in exponent notation \<open>d.ddde+n\<close>: the first part is
    the leading digit with the sign and the second part the remaining digits with the
    exponent; with a one-digit mantissa there is no point and the first part is the number.
    This case cannot occur for a score, which lies between 1 and 5. The decimal exponent
    \<open>n\<close> of a double lies between -324 and 308, where \<open>decimal_exponent\<close> looks for it.
\<close>

definition decimal_exponent :: "real \<Rightarrow> int" where
  "decimal_exponent a =
     (case List.find (\<lambda>e. 10 powi e \<le> a \<and> a < 10 powi (e + 1)) [- 324 .. 308] of
        Some e \<Rightarrow> e
      | None \<Rightarrow> 0)"

definition split_number :: "jsnum \<Rightarrow> jsnum \<times> jsnum" where
  "split_number x =
     (case x of
        NaN \<Rightarrow> (NaN, Num 0)
      | PosInf \<Rightarrow> (PosInf, Num 0)
      | NegInf \<Rightarrow> (NegInf, Num 0)
      | NegZero \<Rightarrow> (Num 0, Num 0)
      | Num v \<Rightarrow>
          if v = 0 then (Num 0, Num 0)
          else if 1 / 10 ^ 6 \<le> \<bar>v\<bar> \<and> \<bar>v\<bar> < 10 ^ 21 then
            (if v < 0 \<and> \<lfloor>\<bar>v\<bar>\<rfloor> = 0 then NegZero else Num (sgn v * of_int \<lfloor>\<bar>v\<bar>\<rfloor>),
             Num (frac \<bar>v\<bar>))
          else
            let e = decimal_exponent \<bar>v\<bar>;
                m = \<bar>v\<bar> / 10 powi e
            in if frac m = 0 then (Num v, Num 0)
               else (Num (sgn v * of_int \<lfloor>m\<rfloor>), Num (frac m * 10 powi e)))"

text \<open>
  The loop \<open>for (let i = 0; i < 5; i++)\<close>; \<open>s0\<close> is \<open>+split[0]\<close>, \<open>s1\<close> is
  \<open>parseFloat('0.' + split[1])\<close>, and \<open>res\<close> the array built so far.
\<close>

function fill_loop :: "nat \<Rightarrow> jsnum \<Rightarrow> jsnum \<Rightarrow> jsnum list \<Rightarrow> jsnum list" where
  "fill_loop i s0 s1 res =
     (if i < 5 then
        fill_loop (i + 1) s0 s1
          (res @ [if js_lt (Num (of_nat i)) s0 then Num 100
                  else if js_eq (Num (of_nat i)) s0 then js_mul s1 (Num 100)
                  else Num 0])
      else res)"
  by pat_completeness auto
termination
  by (relation "measure (\<lambda>(i, s0, s1, res). 5 - i)") auto

text \<open>The memo \<open>_risk\<close> (\<open>scoreToFiveSegmentFill\<close> in the specification).\<close>

definition risk_fill :: "jsnum option \<Rightarrow> jsnum list option" where
  "risk_fill score =
     (case score of None \<Rightarrow> None
      | Some x \<Rightarrow> Some (fill_loop 0 (fst (split_number x)) (snd (split_number x)) []))"

section \<open>Clicking a preset\<close>

text \<open>
  The \<open>onClick\<close> handler of the button of the preset \<open>rng\<close> (\<open>range\<close> in the
  source). \<open>handlePresetRangeSelection\<close> is a callback of the parent: it is modelled as
  a function that takes its argument (\<open>None\<close> for \<open>null\<close>) and the parent's state to
  the new state. \<open>activePreset\<close> has type \<open>Presets | null\<close>, and \<open>null\<close> is loosely
  equal to no member of the enum.
\<close>

definition onClick ::
  "('title preset_range option \<Rightarrow> 's \<Rightarrow> 's) \<Rightarrow> Presets option \<Rightarrow> 'title preset_range \<Rightarrow> 's \<Rightarrow> 's"
where
  "onClick handlePresetRangeSelection activePreset rng s =
     (let s1 = handlePresetRangeSelection (Some rng) s
      in if activePreset = Some (ptype rng)
         then handlePresetRangeSelection None s1
         else handlePresetRangeSelection (Some rng) s1)"

text \<open>A parent that records the arguments it is called with, in order.\<close>

definition record_call :: "'a \<Rightarrow> 'a list \<Rightarrow> 'a list" where
  "record_call a calls = calls @ [a]"

section \<open>Price inversion\<close>

text \<open>
  Modelled from the spec: the hook \<open>useInverter\<close> of \<open>hooks/v3/useInverter\<close>, of which
  the sources hold only the call with \<open>invert: manuallyInverted\<close>. Following the
  specification of \<open>invertPrice\<close>: when inverted, the bounds are swapped and
  reciprocated (new lower = 1 / old upper, new upper = 1 / old lower) and the displayed base
  is the quote token; otherwise bounds and base are returned as they are.
\<close>

definition invertPrice :: "real \<Rightarrow> real \<Rightarrow> 'tok \<Rightarrow> 'tok \<Rightarrow> bool \<Rightarrow> real \<times> real \<times> 'tok" where
  "invertPrice priceLower priceUpper quote base invert =
     (if invert then (1 / priceUpper, 1 / priceLower, quote)
      else (priceLower, priceUpper, base))"

section \<open>Arithmetic on finite numbers\<close>

declare fill_loop.simps [simp del]

lemma js_sub_Num: "js_sub (Num a) (Num b) = Num (a - b)"
  by (simp add: js_sub_def)

lemma js_div_Num_pos: "0 < b \<Longrightarrow> 0 \<le> a \<Longrightarrow> js_div (Num a) (Num b) = Num (a / b)"
  by (simp add: js_div_def zero_signed_def)

lemma upperPercent_Num:
  "pu \<noteq> 0 \<Longrightarrow> upperPercent (Num p) (Num pu) = Num (100 - p / pu * 100)"
  by (auto simp add: upperPercent_def js_div_def js_mul_def js_sub_def zero_signed_def)

lemma lowerPercent_Num:
  "pl \<noteq> 0 \<Longrightarrow> lowerPercent (Num p) (Num pl) = Num \<bar>100 - p / pl * 100\<bar>"
  by (auto simp add: lowerPercent_def js_div_def js_mul_def js_sub_def zero_signed_def)

lemma rangePercent_Num:
  assumes "pl \<noteq> 0" and "pu \<noteq> 0"
  shows "rangePercent (Num pl) (Num pu) (Num p) =
           Num (if p < pl \<and> 0 < pu
                then (100 - p / pu * 100) - \<bar>100 - p / pl * 100\<bar>
                else (100 - p / pu * 100) + \<bar>100 - p / pl * 100\<bar>)"
  using assms
  by (simp add: rangePercent_def upperPercent_Num lowerPercent_Num js_gt_def js_sub_Num)

section \<open>The bands\<close>

lemma riskBands_Num: "riskBands (Num r) = Num (spec_bands r)"
  by (simp add: riskBands_def spec_bands_def js_sub_Num js_div_Num_pos)

lemma riskBands_special:
  "riskBands NegZero = Num 5" "riskBands NegInf = Num 5"
  "riskBands PosInf = Num 1" "riskBands NaN = Num 1"
  by (simp_all add: riskBands_def)

lemma spec_bands_range: "1 \<le> spec_bands r \<and> spec_bands r \<le> 5"
  by (simp add: spec_bands_def)

lemma spec_bands_low: "r \<le> 0 \<Longrightarrow> spec_bands r = 5"
  by (simp add: spec_bands_def)

lemma spec_bands_antimono: "a \<le> b \<Longrightarrow> spec_bands b \<le> spec_bands a"
  unfolding spec_bands_def by (auto simp: field_simps)

lemma spec_bands_step:
  assumes "a \<le> b"
  shows "spec_bands a - spec_bands b \<le> 2 / 15 * (b - a)"
  using assms unfolding spec_bands_def by (auto simp: field_simps)

text \<open>The steepest band has slope \<open>-1 / 7.5\<close>, which bounds every difference.\<close>

lemma spec_bands_lipschitz: "\<bar>spec_bands a - spec_bands b\<bar> \<le> 2 / 15 * \<bar>a - b\<bar>"
proof (cases "a \<le> b")
  case True
  with spec_bands_step [of a b] spec_bands_antimono [of a b] show ?thesis by simp
next
  case False
  then have "b \<le> a" by simp
  with spec_bands_step [of b a] spec_bands_antimono [of b a] show ?thesis by simp
qed

lemma spec_bands_isCont: "isCont spec_bands x"
  unfolding isCont_def LIM_def
proof (intro allI impI)
  fix r :: real
  assume "0 < r"
  have "\<forall>y. y \<noteq> x \<and> dist y x < 15 / 2 * r \<longrightarrow> dist (spec_bands y) (spec_bands x) < r"
  proof (intro allI impI)
    fix y
    assume "y \<noteq> x \<and> dist y x < 15 / 2 * r"
    then have "\<bar>y - x\<bar> < 15 / 2 * r" by (simp add: dist_real_def)
    with spec_bands_lipschitz [of y x] show "dist (spec_bands y) (spec_bands x) < r"
      by (simp add: dist_real_def)
  qed
  with \<open>0 < r\<close>
  show "\<exists>s>0. \<forall>y. y \<noteq> x \<and> dist y x < s \<longrightarrow> dist (spec_bands y) (spec_bands x) < r"
    by (intro exI [of _ "15 / 2 * r"]) simp
qed

lemma riskBands_range: "\<exists>s. riskBands r = Num s \<and> 1 \<le> s \<and> s \<le> 5"
  by (cases r) (simp_all add: riskBands_Num riskBands_special spec_bands_range)

section \<open>The indicator loop\<close>

lemma upt_5: "[0..<5] = [0, 1, 2, 3, 4]"
  by (simp add: upt_rec)

lemma fill_loop_unfold:
  "fill_loop 0 s0 s1 [] =
     map (\<lambda>i. if js_lt (Num (of_nat i)) s0 then Num 100
               else if js_eq (Num (of_nat i)) s0 then js_mul s1 (Num 100)
               else Num 0) [0..<5]"
  unfolding upt_5 by (simp add: fill_loop.simps)

lemma split_number_score:
  assumes "1 \<le> s" and "s \<le> 5"
  shows "split_number (Num s) = (Num (of_int \<lfloor>s\<rfloor>), Num (frac s))"
  using assms by (simp add: split_number_def)

lemma js_mul_frac: "js_mul (Num (frac s)) (Num 100) = Num (frac s * 100)"
  using frac_ge_0 [of s] by (simp add: js_mul_def zero_signed_def not_less [symmetric])

lemma js_lt_int: "js_lt (Num (of_nat i)) (Num (of_int k)) = (int i < k)"
  by simp linarith

lemma js_eq_int: "js_eq (Num (of_nat i)) (Num (of_int k)) = (int i = k)"
  by (simp add: js_eq_def) linarith

section \<open>Claims\<close>

text \<open>
  Claim C1. For every input triple that is present, the score is the band value of
  \<open>rangePercent\<close>: below 7.5 it is 5, in [7.5, 15) it is (15 - r) / 7.5 + 4, in
  [15, 30) it is (30 - r) / 15 + 3, in [30, 60) it is (60 - r) / 30 + 2, in [60, 120) it is
  (120 - r) / 60 + 1, and from 120 on it is 1 (\<open>spec_bands\<close>); the infinities fall in
  the first and the last band. For priceLower = 0.9, priceUpper = 1.2 and price = 1 the
  range is 250 / 9 and the score 3 + 4 / 27.
\<close>

theorem risk_follows_bands:
  "risk (Some priceLower) (Some priceUpper) (Some price) =
     Some (riskBands (rangePercent priceLower priceUpper price))
   \<and> riskBands (Num r) =
       Num (if r < 7.5 then 5
            else if r < 15 then (15 - r) / 7.5 + 4
            else if r < 30 then (30 - r) / 15 + 3
            else if r < 60 then (60 - r) / 30 + 2
            else if r < 120 then (120 - r) / 60 + 1
            else 1)
   \<and> riskBands NegInf = Num 5
   \<and> riskBands PosInf = Num 1
   \<and> rangePercent (Num 0.9) (Num 1.2) (Num 1) = Num (250 / 9)
   \<and> risk (Some (Num 0.9)) (Some (Num 1.2)) (Some (Num 1)) = Some (Num (3 + 4 / 27))"
proof -
  have general: "risk (Some priceLower) (Some priceUpper) (Some price) =
      Some (riskBands (rangePercent priceLower priceUpper price))"
    for priceLower priceUpper price
    by (simp add: risk_def)
  have bands: "riskBands (Num r) =
       Num (if r < 7.5 then 5
            else if r < 15 then (15 - r) / 7.5 + 4
            else if r < 30 then (30 - r) / 15 + 3
            else if r < 60 then (60 - r) / 30 + 2
            else if r < 120 then (120 - r) / 60 + 1
            else 1)"
    by (simp only: riskBands_Num spec_bands_def)
  have range: "rangePercent (Num 0.9) (Num 1.2) (Num 1) = Num (250 / 9)"
    by (simp add: rangePercent_Num)
  have score: "risk (Some (Num 0.9)) (Some (Num 1.2)) (Some (Num 1)) = Some (Num (3 + 4 / 27))"
    by (simp only: general range) (simp add: riskBands_Num spec_bands_def)
  show ?thesis
    using general bands range score by (simp only: riskBands_special simp_thms)
qed

text \<open>
  Claim C2, as stated: the subtraction \<open>upperPercent - lowerPercent\<close> is selected exactly
  when priceLower > price. It fails for priceLower = 2, priceUpper = -1, price = 1: the
  lower bound is above the price, yet the code adds (250) where the claim subtracts (150),
  because the code also asks for priceUpper > 0.
\<close>

theorem rangePercent_lower_alone_counterexample:
  "js_gt (Num 2) (Num 1)
   \<and> rangePercent (Num 2) (Num (- 1)) (Num 1) = Num 250
   \<and> js_sub (upperPercent (Num 1) (Num (- 1))) (lowerPercent (Num 1) (Num 2)) = Num 150
   \<and> rangePercent (Num 2) (Num (- 1)) (Num 1)
       \<noteq> js_sub (upperPercent (Num 1) (Num (- 1))) (lowerPercent (Num 1) (Num 2))"
  by (simp add: rangePercent_Num upperPercent_Num lowerPercent_Num js_sub_Num js_gt_def)

text \<open>
  Claim C2, amended: upperPercent is 100 - (price / priceUpper) * 100, lowerPercent is
  |100 - (price / priceLower) * 100|, and rangePercent is their difference exactly when
  priceLower > price and priceUpper > 0, their sum otherwise. For finite numbers with
  non-zero bounds these are the real-number formulas.
\<close>

theorem rangePercent_selection:
  assumes "pl \<noteq> 0" and "pu \<noteq> 0"
  shows "upperPercent price priceUpper =
           js_sub (Num 100) (js_mul (js_div price priceUpper) (Num 100))
    \<and> lowerPercent price priceLower =
           js_abs (js_sub (Num 100) (js_mul (js_div price priceLower) (Num 100)))
    \<and> rangePercent priceLower priceUpper price =
           (if js_gt priceLower price \<and> js_gt priceUpper (Num 0)
            then js_sub (upperPercent price priceUpper) (lowerPercent price priceLower)
            else js_add (upperPercent price priceUpper) (lowerPercent price priceLower))
    \<and> upperPercent (Num p) (Num pu) = Num (100 - p / pu * 100)
    \<and> lowerPercent (Num p) (Num pl) = Num \<bar>100 - p / pl * 100\<bar>
    \<and> rangePercent (Num pl) (Num pu) (Num p) =
           Num (if p < pl \<and> 0 < pu
                then (100 - p / pu * 100) - \<bar>100 - p / pl * 100\<bar>
                else (100 - p / pu * 100) + \<bar>100 - p / pl * 100\<bar>)"
  using assms
  by (simp only: upperPercent_Num lowerPercent_Num rangePercent_Num simp_thms)
     (simp add: upperPercent_def lowerPercent_def rangePercent_def)

theorem rangePercent_selection_witness:
  "(2::real) \<noteq> 0 \<and> (4::real) \<noteq> 0
   \<and> upperPercent (Num 1) (Num 4) = Num 75
   \<and> lowerPercent (Num 1) (Num 2) = Num 50
   \<and> rangePercent (Num 2) (Num 4) (Num 1) = Num 25
   \<and> rangePercent (Num 2) (Num 4) (Num 1)
       = js_sub (upperPercent (Num 1) (Num 4)) (lowerPercent (Num 1) (Num 2))"
proof -
  have nz: "(2::real) \<noteq> 0" "(4::real) \<noteq> 0" by simp_all
  show ?thesis
    using rangePercent_selection [OF nz, of "Num 1" "Num 4" "Num 2" 1]
    by (simp add: js_gt_def js_sub_def js_mul_def js_div_def)
qed

text \<open>
  Claim C3. For every value of \<open>rangePercent\<close>, NaN and the infinities included, and so
  for every input triple that is present, the score is a finite number between 1 and 5.
  The bands meet at each boundary: at 7.5 the band [7.5, 15) gives the 5 of the band below,
  and at 15, 30, 60 and 120 the formula of the band that ends there gives the value of the
  band that starts there. The score is a continuous function of a finite \<open>rangePercent\<close>.
\<close>

theorem risk_score_range_and_continuity:
  "(\<exists>s. riskBands r = Num s \<and> 1 \<le> s \<and> s \<le> 5)
   \<and> (\<exists>s. risk (Some priceLower) (Some priceUpper) (Some price) = Some (Num s)
          \<and> 1 \<le> s \<and> s \<le> 5)
   \<and> riskBands (Num 7.5) = Num 5
   \<and> js_add (js_div (js_sub (Num 15) (Num 15)) (Num 7.5)) (Num 4) = riskBands (Num 15)
   \<and> js_add (js_div (js_sub (Num 30) (Num 30)) (Num 15)) (Num 3) = riskBands (Num 30)
   \<and> js_add (js_div (js_sub (Num 60) (Num 60)) (Num 30)) (Num 2) = riskBands (Num 60)
   \<and> js_add (js_div (js_sub (Num 120) (Num 120)) (Num 60)) (Num 1) = riskBands (Num 120)
   \<and> isCont (\<lambda>x. mag (riskBands (Num x))) x"
proof -
  have in_range: "\<exists>s. riskBands r = Num s \<and> 1 \<le> s \<and> s \<le> 5" for r
    by (rule riskBands_range)
  have score: "\<exists>s. risk (Some priceLower) (Some priceUpper) (Some price) = Some (Num s)
      \<and> 1 \<le> s \<and> s \<le> 5"
    using in_range [of "rangePercent priceLower priceUpper price"] by (simp add: risk_def)
  have boundaries:
    "riskBands (Num 7.5) = Num 5"
    "js_add (js_div (js_sub (Num 15) (Num 15)) (Num 7.5)) (Num 4) = riskBands (Num 15)"
    "js_add (js_div (js_sub (Num 30) (Num 30)) (Num 15)) (Num 3) = riskBands (Num 30)"
    "js_add (js_div (js_sub (Num 60) (Num 60)) (Num 30)) (Num 2) = riskBands (Num 60)"
    "js_add (js_div (js_sub (Num 120) (Num 120)) (Num 60)) (Num 1) = riskBands (Num 120)"
    by (simp_all add: riskBands_Num spec_bands_def js_sub_Num js_div_Num_pos)
  have "(\<lambda>x. mag (riskBands (Num x))) = spec_bands"
    by (simp add: riskBands_Num fun_eq_iff)
  then have continuous: "isCont (\<lambda>x. mag (riskBands (Num x))) x"
    by (simp only: spec_bands_isCont)
  from in_range score boundaries continuous show ?thesis
    by (intro conjI)
qed

text \<open>
  Claim C4. As a function of \<open>rangePercent\<close> the score is monotonically non-increasing:
  whenever r1 <= r2, the score at r1 is greater than or equal to the score at r2.
\<close>

theorem riskBands_non_increasing:
  assumes "js_le r1 r2"
  shows "js_ge (riskBands r1) (riskBands r2)"
proof -
  obtain s1 where s1: "riskBands r1 = Num s1" "1 \<le> s1" "s1 \<le> 5"
    using riskBands_range by blast
  obtain s2 where s2: "riskBands r2 = Num s2" "1 \<le> s2" "s2 \<le> 5"
    using riskBands_range by blast
  have "s2 \<le> s1"
    using assms s1 s2
    by (cases r1; cases r2)
       (auto simp: js_le_def riskBands_Num riskBands_special spec_bands_low not_less
             intro: spec_bands_antimono)
  then show ?thesis
    by (simp add: js_ge_def js_le_def s1 s2)
qed

theorem riskBands_non_increasing_witness:
  "js_le (Num 10) (Num 20)
   \<and> js_ge (riskBands (Num 10)) (riskBands (Num 20))
   \<and> riskBands (Num 10) = Num (14 / 3) \<and> riskBands (Num 20) = Num (11 / 3)"
proof -
  have le: "js_le (Num 10) (Num 20)" by (simp add: js_le_def)
  show ?thesis
    using le riskBands_non_increasing [OF le]
    by (simp add: riskBands_Num spec_bands_def)
qed

text \<open>
  Claim C5. For a stablecoin pair \<open>ranges\<close> is exactly one preset, with bounds 0.984 and
  1.016, risk VERY_LOW and profit HIGH. Otherwise it is the four presets FULL, SAFE, NORMAL,
  RISK in this order, with bounds [0, Infinity), [0.8, 1.4], [0.9, 1.2], [0.95, 1.1] and
  the risk and profit tiers VERY_LOW, LOW, MEDIUM, HIGH.
\<close>

theorem ranges_presets:
  "ranges t True =
     [\<lparr>ptype = STABLE, title = t ''stablecoins'', pmin = Num 0.984, pmax = Num 1.016,
       prisk = VERY_LOW, profit = HIGH\<rparr>]
   \<and> length (ranges t True) = 1
   \<and> length (ranges t False) = 4
   \<and> map ptype (ranges t False) = [FULL, SAFE, NORMAL, RISK]
   \<and> map (\<lambda>r. (pmin r, pmax r)) (ranges t False) =
       [(Num 0, PosInf), (Num 0.8, Num 1.4), (Num 0.9, Num 1.2), (Num 0.95, Num 1.1)]
   \<and> map (\<lambda>r. (prisk r, profit r)) (ranges t False) =
       [(VERY_LOW, VERY_LOW), (LOW, LOW), (MEDIUM, MEDIUM), (HIGH, HIGH)]"
  by (simp add: ranges_def)

text \<open>
  Claim C6. For every score between 1 and 5, \<open>risk_fill\<close> returns five fill percentages:
  segment i is 100 when i < floor(score), the fractional part of the score times 100 when
  i = floor(score), and 0 otherwise. For the score 3.4 they are 100, 100, 100, 40, 0.
\<close>

theorem risk_fill_segments:
  assumes "1 \<le> s" and "s \<le> 5"
  shows "risk_fill (Some (Num s)) =
           Some (map (\<lambda>i. if int i < \<lfloor>s\<rfloor> then Num 100
                           else if int i = \<lfloor>s\<rfloor> then Num (frac s * 100)
                           else Num 0) [0..<5])"
  unfolding risk_fill_def
  by (simp only: option.case split_number_score [OF assms] fst_conv snd_conv
        fill_loop_unfold js_mul_frac js_lt_int js_eq_int)

theorem risk_fill_segments_witness:
  "(1::real) \<le> 3.4 \<and> (3.4::real) \<le> 5
   \<and> risk_fill (Some (Num 3.4)) = Some [Num 100, Num 100, Num 100, Num 40, Num 0]"
  using risk_fill_segments [of "3.4"] by (simp add: frac_def upt_5)

text \<open>
  Claim C7. The score is absent as soon as one of priceLower, priceUpper and price is
  absent, and the fill percentages are absent when the score is.
\<close>

theorem absent_inputs_propagate:
  "risk None priceUpper price = None
   \<and> risk priceLower None price = None
   \<and> risk priceLower priceUpper None = None
   \<and> risk_fill None = None
   \<and> risk_fill (risk None priceUpper price) = None
   \<and> risk_fill (risk priceLower None price) = None
   \<and> risk_fill (risk priceLower priceUpper None) = None"
  by (simp add: risk_def risk_fill_def split: option.splits)

text \<open>
  Claim C8. No input makes \<open>risk\<close> or \<open>risk_fill\<close> fail. The source has no operation
  that throws: arithmetic and comparisons on numbers are total, the only member access on a
  possibly absent value is guarded by \<open>?.\<close>, \<open>split[0]\<close> always exists and a missing
  \<open>split[1]\<close> is read as 0; the loop terminates (\<open>fill_loop\<close> is total). So every input
  gives either no score and no fill, or a finite score between 1 and 5 with five fill
  percentages. With priceUpper = 0 the division yields an infinity and the score is 5;
  with all three inputs 0 it yields NaN and the score is 1.
\<close>

theorem risk_total:
  "((risk priceLower priceUpper price = None
      \<and> risk_fill (risk priceLower priceUpper price) = None)
    \<or> (\<exists>s fill. risk priceLower priceUpper price = Some (Num s) \<and> 1 \<le> s \<and> s \<le> 5
          \<and> risk_fill (risk priceLower priceUpper price) = Some fill \<and> length fill = 5))
   \<and> (\<exists>s. risk (Some pl) (Some (Num 0)) (Some p) = Some (Num s) \<and> 1 \<le> s \<and> s \<le> 5)
   \<and> (\<exists>fill. risk_fill (Some x) = Some fill \<and> length fill = 5)
   \<and> upperPercent (Num 1) (Num 0) = NegInf
   \<and> risk (Some (Num 0.9)) (Some (Num 0)) (Some (Num 1)) = Some (Num 5)
   \<and> risk_fill (Some (Num 5)) = Some [Num 100, Num 100, Num 100, Num 100, Num 100]
   \<and> rangePercent (Num 0) (Num 0) (Num 0) = NaN
   \<and> risk (Some (Num 0)) (Some (Num 0)) (Some (Num 0)) = Some (Num 1)"
proof -
  have fill: "\<exists>fill. risk_fill (Some x) = Some fill \<and> length fill = 5" for x
    by (simp add: risk_fill_def fill_loop_unfold)
  have every: "(risk priceLower priceUpper price = None
      \<and> risk_fill (risk priceLower priceUpper price) = None)
    \<or> (\<exists>s fill. risk priceLower priceUpper price = Some (Num s) \<and> 1 \<le> s \<and> s \<le> 5
          \<and> risk_fill (risk priceLower priceUpper price) = Some fill \<and> length fill = 5)"
  proof (cases "risk priceLower priceUpper price")
    case None
    then show ?thesis by (simp add: risk_fill_def)
  next
    case (Some r)
    then obtain pl' pu' p' where "r = riskBands (rangePercent pl' pu' p')"
      by (auto simp: risk_def split: option.splits)
    then obtain s where "r = Num s" "1 \<le> s" "s \<le> 5"
      using riskBands_range by blast
    with Some fill [of r] show ?thesis by auto
  qed
  have zero_upper: "\<exists>s. risk (Some pl) (Some (Num 0)) (Some p) = Some (Num s) \<and> 1 \<le> s \<and> s \<le> 5"
    using riskBands_range [of "rangePercent pl (Num 0) p"] by (simp add: risk_def)
  have upper: "upperPercent (Num 1) (Num 0) = NegInf"
    by (simp add: upperPercent_def js_div_def js_mul_def js_sub_def inf_signed_def)
  have lower: "lowerPercent (Num 1) (Num 0.9) = Num (100 / 9)"
    by (simp add: lowerPercent_Num)
  have at_zero: "risk (Some (Num 0.9)) (Some (Num 0)) (Some (Num 1)) = Some (Num 5)"
    by (simp only: risk_def option.case rangePercent_def upper lower)
       (simp add: js_gt_def riskBands_special)
  have five: "risk_fill (Some (Num 5)) = Some [Num 100, Num 100, Num 100, Num 100, Num 100]"
    by (simp add: risk_fill_def split_number_def fill_loop_unfold upt_5)
  have nan: "rangePercent (Num 0) (Num 0) (Num 0) = NaN"
    by (simp add: rangePercent_def upperPercent_def lowerPercent_def js_div_def js_mul_def
          js_sub_def js_gt_def)
  have all_zero: "risk (Some (Num 0)) (Some (Num 0)) (Some (Num 0)) = Some (Num 1)"
    by (simp only: risk_def option.case nan riskBands_special)
  from every zero_upper fill upper at_zero five nan all_zero show ?thesis
    by (intro conjI)
qed

text \<open>
  Claim C9. A single inversion swaps and reciprocates the bounds (new lower = 1 / old upper,
  new upper = 1 / old lower) and shows the quote token as base; inverting the result again
  returns the original pair of positive prices and the original base. For example
  (0.8, 1.2) inverts to (5/6, 1.25) and back to (0.8, 1.2).
\<close>

theorem invertPrice_involution:
  assumes "0 < priceLower" and "0 < priceUpper"
  shows "invertPrice priceLower priceUpper quote base True =
           (1 / priceUpper, 1 / priceLower, quote)
    \<and> invertPrice (1 / priceUpper) (1 / priceLower) base quote True =
           (priceLower, priceUpper, base)
    \<and> invertPrice priceLower priceUpper quote base False = (priceLower, priceUpper, base)"
  using assms by (simp add: invertPrice_def)

theorem invertPrice_involution_witness:
  "(0::real) < 0.8 \<and> (0::real) < 1.2
   \<and> invertPrice 0.8 1.2 ''USDC'' ''WETH'' True = (5 / 6, 1.25, ''USDC'')
   \<and> invertPrice (5 / 6) 1.25 ''WETH'' ''USDC'' True = (0.8, 1.2, ''WETH'')"
proof -
  have pos: "(0::real) < 0.8" "(0::real) < 1.2" by simp_all
  show ?thesis
    using invertPrice_involution [OF pos, of "''USDC''" "''WETH''"] by simp
qed

text \<open>
  Claim C10. A click on a preset button calls \<open>handlePresetRangeSelection\<close> twice: first
  with the clicked range, whatever the active preset is, then with \<open>null\<close> if the clicked
  range's type is the active preset and with the same range otherwise. The last call's
  argument is \<open>null\<close> exactly when the clicked preset was already active.
\<close>

theorem onClick_calls:
  "onClick h activePreset rng s =
     h (if activePreset = Some (ptype rng) then None else Some rng) (h (Some rng) s)
   \<and> onClick record_call activePreset rng calls =
       calls @ [Some rng, if activePreset = Some (ptype rng) then None else Some rng]
   \<and> (last (onClick record_call activePreset rng calls) = None)
       = (activePreset = Some (ptype rng))"
  by (simp add: onClick_def record_call_def Let_def)

end
